theory Spec2Isabelle
  imports Main "HOL-Library.Word"
begin

section \<open>tinycrypto: keysets over an authenticated cipher\<close>

text \<open>
  A shallow embedding of \<^verbatim>\<open>crypto.go\<close>. The Go code keeps a keyset as a slice of
  pointers to \<^verbatim>\<open>Key\<close> structs and mutates a key through its pointer, so the model
  has an explicit store of \<^verbatim>\<open>Key\<close> objects and a keyset is a list of addresses.
  The reader/writer lock is not modelled: every operation is one atomic step.
\<close>

subsection \<open>Values, errors, time\<close>

type_synonym byte = "8 word"
type_synonym bytes = "byte list"

text \<open>
  A Go \<^verbatim>\<open>error\<close> made by this package (\<^verbatim>\<open>errors.New\<close>) carries its message; an
  error handed up from \<^verbatim>\<open>crypto/aes\<close>, \<^verbatim>\<open>crypto/cipher\<close> or \<^verbatim>\<open>io.ReadFull\<close> is
  kept apart as \<open>libError\<close>. Dereferencing a nil \<^verbatim>\<open>*Key\<close> panics.
\<close>

datatype error =
    errorString string
  | libError string
  | nilDereference

text \<open>
  \<^verbatim>\<open>time.Time\<close> is an instant, here in nanoseconds since the Unix epoch;
  \<^verbatim>\<open>time.Duration\<close> is a signed count of nanoseconds. \<^verbatim>\<open>Time.Unix\<close> gives the whole
  seconds elapsed since the epoch (rounding down, also before 1970).
\<close>

type_synonym Time = int
type_synonym Duration = int

definition Second :: Duration where
  "Second = 1000000000"

definition Hour :: Duration where
  "Hour = 3600 * Second"

definition Add :: "Time \<Rightarrow> Duration \<Rightarrow> Time" where
  "Add t d = t + d"

definition Unix :: "Time \<Rightarrow> int" where
  "Unix t = t div 1000000000"

subsection \<open>The library primitives\<close>

text \<open>
  \<^verbatim>\<open>aes.NewCipher\<close>, \<^verbatim>\<open>cipher.NewGCM\<close> and the methods of the resulting AEAD belong
  to the Go standard library; they are parameters of the model. \<open>Seal\<close> takes the nonce,
  the plaintext and the additional data and yields what the library appends to its
  destination slice; \<open>Open\<close> takes the nonce, the ciphertext and the additional data.
\<close>

record ('c, 'g) crypto_lib =
  aes_NewCipher :: "bytes \<Rightarrow> string + 'c"
  cipher_NewGCM :: "'c \<Rightarrow> string + 'g"
  NonceSize :: "'g \<Rightarrow> nat"
  Seal :: "'g \<Rightarrow> bytes \<Rightarrow> bytes \<Rightarrow> bytes \<Rightarrow> bytes"
  Open :: "'g \<Rightarrow> bytes \<Rightarrow> bytes \<Rightarrow> bytes \<Rightarrow> string + bytes"

text \<open>
  \<^verbatim>\<open>io.ReadFull(rand.Reader, buf)\<close>: \<open>rnd\<close> is what the random source can deliver to
  this call; the read fails when that is less than the buffer.
\<close>

definition ReadFull :: "bytes \<Rightarrow> nat \<Rightarrow> string + bytes" where
  "ReadFull rnd n = (if length rnd < n then Inl ''unexpected EOF'' else Inr (take n rnd))"

subsection \<open>Encrypt and Decrypt\<close>

definition Encrypt :: "('c, 'g) crypto_lib \<Rightarrow> bytes \<Rightarrow> bytes \<Rightarrow> bytes \<Rightarrow> error + bytes" where
  "Encrypt L rnd val key =
     (case aes_NewCipher L key of
        Inl err \<Rightarrow> Inl (libError err)
      | Inr c \<Rightarrow>
          (case cipher_NewGCM L c of
             Inl err \<Rightarrow> Inl (libError err)
           | Inr gcm \<Rightarrow>
               (case ReadFull rnd (NonceSize L gcm) of
                  Inl err \<Rightarrow> Inl (libError err)
                | Inr nonce \<Rightarrow> Inr (nonce @ Seal L gcm nonce val []))))"

definition Decrypt :: "('c, 'g) crypto_lib \<Rightarrow> bytes \<Rightarrow> bytes \<Rightarrow> error + bytes" where
  "Decrypt L val key =
     (case aes_NewCipher L key of
        Inl err \<Rightarrow> Inl (libError err)
      | Inr c \<Rightarrow>
          (case cipher_NewGCM L c of
             Inl err \<Rightarrow> Inl (libError err)
           | Inr gcm \<Rightarrow>
               (let nonceSize = NonceSize L gcm in
                if length val < nonceSize
                then Inl (errorString ''the cipher text value is too short'')
                else (case Open L gcm (take nonceSize val) (drop nonceSize val) [] of
                        Inl err \<Rightarrow> Inl (libError err)
                      | Inr res \<Rightarrow> Inr res))))"

subsection \<open>Keys and keysets\<close>

record Key =
  Value :: bytes
  CreatedUnix :: int
  ExpiresUnix :: int

type_synonym ptr = nat

text \<open>The store of \<^verbatim>\<open>Key\<close> objects; an address it does not hold is a nil pointer.\<close>

type_synonym heap = "ptr \<rightharpoonup> Key"

record Keyset =
  keys :: "ptr list"
  TypeID :: int

definition NewKeyset :: Keyset where
  "NewKeyset = \<lparr>keys = [], TypeID = 0\<rparr>"

definition NewKeysetWithKey :: "ptr \<Rightarrow> Keyset" where
  "NewKeysetWithKey k = \<lparr>keys = [k], TypeID = 0\<rparr>"

text \<open>\<^verbatim>\<open>NewKey\<close> builds the struct; the caller holds the address it is stored at.\<close>

definition NewKey :: "Time \<Rightarrow> bytes \<Rightarrow> Key" where
  "NewKey now key256 = \<lparr>Value = key256, CreatedUnix = Unix now, ExpiresUnix = 0\<rparr>"

text \<open>
  The test \<^verbatim>\<open>k.ExpiresUnix > 0 && k.ExpiresUnix < now\<close>, written out three times in
  the source (in \<^verbatim>\<open>Keyset.Encrypt\<close>, \<^verbatim>\<open>Keyset.Decrypt\<close> and \<^verbatim>\<open>Keyset.Purge\<close>);
  \<open>now\<close> is in Unix seconds.
\<close>

definition keyExpired :: "Key \<Rightarrow> int \<Rightarrow> bool" where
  "keyExpired k now \<longleftrightarrow> ExpiresUnix k > 0 \<and> ExpiresUnix k < now"

text \<open>
  The expiry predicate in the words of the specification (\<open>expiresAt != 0 && expiresAt < now\<close>),
  kept apart from the code's test above so that the two can be compared.
\<close>

definition spec_isExpired :: "Key \<Rightarrow> int \<Rightarrow> bool" where
  "spec_isExpired k now \<longleftrightarrow> ExpiresUnix k \<noteq> 0 \<and> ExpiresUnix k < now"

definition EmptyKeysetError :: error where
  "EmptyKeysetError = errorString ''invalid keyset: empty''"

definition NoValidKeyError :: error where
  "NoValidKeyError = errorString ''no valid key in keyset''"

definition NoValidDecryptionKeyError :: error where
  "NoValidDecryptionKeyError = errorString ''no valid decryption key''"

definition Keyset_Encrypt ::
  "('c, 'g) crypto_lib \<Rightarrow> bytes \<Rightarrow> heap \<Rightarrow> Time \<Rightarrow> Keyset \<Rightarrow> bytes \<Rightarrow> error + bytes" where
  "Keyset_Encrypt L rnd h now ks val =
     (if length (keys ks) = 0 then Inl EmptyKeysetError
      else (case h (keys ks ! 0) of
              None \<Rightarrow> Inl nilDereference
            | Some k \<Rightarrow>
                if keyExpired k (Unix now) then Inl NoValidKeyError
                else Encrypt L rnd val (Value k)))"

text \<open>The \<^verbatim>\<open>range\<close> loop of \<^verbatim>\<open>Keyset.Decrypt\<close>; \<open>now\<close> is the snapshot in Unix seconds.\<close>

fun Decrypt_loop ::
  "('c, 'g) crypto_lib \<Rightarrow> heap \<Rightarrow> int \<Rightarrow> ptr list \<Rightarrow> bytes \<Rightarrow> error + bytes" where
  "Decrypt_loop L h now [] val = Inl NoValidDecryptionKeyError"
| "Decrypt_loop L h now (p # ps) val =
     (case h p of
        None \<Rightarrow> Inl nilDereference
      | Some k \<Rightarrow>
          if keyExpired k now then Decrypt_loop L h now ps val
          else (case Decrypt L val (Value k) of
                  Inr res \<Rightarrow> Inr res
                | Inl err \<Rightarrow> Decrypt_loop L h now ps val))"

definition Keyset_Decrypt ::
  "('c, 'g) crypto_lib \<Rightarrow> heap \<Rightarrow> Time \<Rightarrow> Keyset \<Rightarrow> bytes \<Rightarrow> error + bytes" where
  "Keyset_Decrypt L h now ks val = Decrypt_loop L h (Unix now) (keys ks) val"

text \<open>
  \<^verbatim>\<open>RotateIn\<close> writes the expiration through the pointer in slot 0 and installs a
  fresh slice; it returns nothing, so the result is the new store and keyset, or the panic.
\<close>

definition RotateIn ::
  "heap \<Rightarrow> Time \<Rightarrow> Keyset \<Rightarrow> ptr \<Rightarrow> Duration \<Rightarrow> error + (heap \<times> Keyset)" where
  "RotateIn h now ks key expireAfter =
     (if length (keys ks) > 0 then
        (case h (keys ks ! 0) of
           None \<Rightarrow> Inl nilDereference
         | Some k0 \<Rightarrow>
             Inr (h(keys ks ! 0 \<mapsto> k0\<lparr>ExpiresUnix := Unix (Add now expireAfter)\<rparr>),
                  ks\<lparr>keys := [key] @ keys ks\<rparr>))
      else Inr (h, ks\<lparr>keys := [key]\<rparr>))"

text \<open>
  The loop of \<^verbatim>\<open>Purge\<close>: \<open>i\<close> is the index the \<^verbatim>\<open>range\<close> has reached, \<open>arr\<close> the
  slice being read and overwritten in place, \<open>end\<close> the write position.
\<close>

function Purge_loop ::
  "heap \<Rightarrow> int \<Rightarrow> ptr list \<Rightarrow> nat \<Rightarrow> nat \<Rightarrow> error + (ptr list \<times> nat)" where
  "Purge_loop h now arr end i =
     (if i < length arr then
        (case h (arr ! i) of
           None \<Rightarrow> Inl nilDereference
         | Some k \<Rightarrow>
             if keyExpired k now then Purge_loop h now arr end (i + 1)
             else Purge_loop h now (arr[end := arr ! i]) (end + 1) (i + 1))
      else Inr (arr, end))"
  by pat_completeness auto
termination
  by (relation "measure (\<lambda>(h, now, arr, end, i). length arr - i)") auto

declare Purge_loop.simps [simp del]

definition Purge :: "heap \<Rightarrow> Time \<Rightarrow> Keyset \<Rightarrow> error + Keyset" where
  "Purge h now ks =
     (case Purge_loop h (Unix now) (keys ks) 0 0 of
        Inl err \<Rightarrow> Inl err
      | Inr (arr, end) \<Rightarrow> Inr (ks\<lparr>keys := take end arr\<rparr>))"

subsection \<open>A stand-in library and sample data\<close>

text \<open>
  Concrete runs need a concrete library. The stand-in accepts the key sizes AES accepts,
  uses 12-byte nonces, and tags a message by appending the key; \<open>Open\<close> checks the tag.
\<close>

definition stubLib :: "(bytes, bytes) crypto_lib" where
  "stubLib =
     \<lparr>aes_NewCipher = (\<lambda>key. if length key = 16 \<or> length key = 24 \<or> length key = 32
                              then Inr key else Inl ''crypto/aes: invalid key size''),
      cipher_NewGCM = Inr,
      NonceSize = (\<lambda>g. 12),
      Seal = (\<lambda>g nonce plaintext data. plaintext @ g),
      Open = (\<lambda>g nonce ciphertext data.
                if length g \<le> length ciphertext
                   \<and> drop (length ciphertext - length g) ciphertext = g
                then Inr (take (length ciphertext - length g) ciphertext)
                else Inl ''cipher: message authentication failed'')\<rparr>"

definition K1 :: Key where
  "K1 = \<lparr>Value = replicate 32 1, CreatedUnix = 1000, ExpiresUnix = 0\<rparr>"

definition K2 :: Key where
  "K2 = \<lparr>Value = replicate 32 2, CreatedUnix = 2000, ExpiresUnix = 2500\<rparr>"

definition K3 :: Key where
  "K3 = \<lparr>Value = replicate 32 3, CreatedUnix = 3000, ExpiresUnix = 0\<rparr>"

definition K4 :: Key where
  "K4 = \<lparr>Value = replicate 32 4, CreatedUnix = 500, ExpiresUnix = 900\<rparr>"

definition K5 :: Key where
  "K5 = \<lparr>Value = replicate 32 5, CreatedUnix = 1000, ExpiresUnix = - 5\<rparr>"

definition sampleHeap :: heap where
  "sampleHeap = [1 \<mapsto> K1, 2 \<mapsto> K2, 3 \<mapsto> K3, 4 \<mapsto> K4, 5 \<mapsto> K5]"

definition sampleNonce :: bytes where
  "sampleNonce = replicate 12 7"

definition samplePlain :: bytes where
  "samplePlain = [104, 105]"

section \<open>Properties\<close>

subsection \<open>The stand-in library, evaluated\<close>

lemma stub_Encrypt:
  "length key = 32 \<Longrightarrow> 12 \<le> length rnd \<Longrightarrow>
   Encrypt stubLib rnd val key = Inr (take 12 rnd @ val @ key)"
  by (simp add: Encrypt_def stubLib_def ReadFull_def)

lemma stub_Decrypt:
  "length key = 32 \<Longrightarrow> Decrypt stubLib val key =
     (if length val < 12 then Inl (errorString ''the cipher text value is too short'')
      else if 44 \<le> length val \<and> drop (length val - 32) val = key
           then Inr (take (length val - 44) (drop 12 val))
           else Inl (libError ''cipher: message authentication failed''))"
  by (auto simp add: Decrypt_def stubLib_def Let_def)

subsection \<open>The decryption loop passes over expired and failing keys\<close>

lemma Decrypt_loop_skip:
  assumes "h a = Some k" and "keyExpired k now \<or> (\<exists>e. Decrypt L val (Value k) = Inl e)"
  shows "Decrypt_loop L h now (pre @ a # post) val = Decrypt_loop L h now (pre @ post) val"
  using assms by (induction pre) (auto split: option.splits sum.splits)

lemma Decrypt_loop_passed_over:
  assumes "\<forall>b \<in> set pre. \<exists>kb. h b = Some kb
             \<and> (keyExpired kb now \<or> (\<exists>e. Decrypt L val (Value kb) = Inl e))"
  shows "Decrypt_loop L h now (pre @ rest) val = Decrypt_loop L h now rest val"
  using assms by (induction pre) (auto split: option.splits sum.splits)

subsection \<open>RotateIn\<close>

text \<open>
  C1. \<^verbatim>\<open>RotateIn\<close> on a keyset whose front pointer, if there is one, is not nil: the new
  key is at index 0, the old keys follow in their old order, so there is one key more;
  the \<^verbatim>\<open>Key\<close> object the old front pointer refers to gets \<open>ExpiresUnix\<close> set to the
  Unix time of \<open>now + expireAfter\<close>, whatever it held before, and keeps its other fields;
  every other \<^verbatim>\<open>Key\<close> object in the store is unchanged.
\<close>

theorem RotateIn_prepends_and_expires_front:
  assumes "keys ks \<noteq> [] \<longrightarrow> h (hd (keys ks)) \<noteq> None"
  shows "\<exists>h' ks'. RotateIn h now ks key expireAfter = Inr (h', ks')
           \<and> keys ks' = key # keys ks
           \<and> keys ks' ! 0 = key
           \<and> (\<forall>i < length (keys ks). keys ks' ! (i + 1) = keys ks ! i)
           \<and> length (keys ks') = length (keys ks) + 1
           \<and> TypeID ks' = TypeID ks
           \<and> (keys ks \<noteq> [] \<longrightarrow>
                h' (hd (keys ks)) =
                  map_option (\<lambda>k0. k0\<lparr>ExpiresUnix := Unix (Add now expireAfter)\<rparr>)
                    (h (hd (keys ks))))
           \<and> (\<forall>p. keys ks = [] \<or> p \<noteq> hd (keys ks) \<longrightarrow> h' p = h p)"
proof (cases "keys ks")
  case Nil
  then show ?thesis by (simp add: RotateIn_def)
next
  case (Cons a as)
  with assms obtain k0 where k0: "h a = Some k0" by auto
  from Cons k0 show ?thesis by (simp add: RotateIn_def)
qed

theorem RotateIn_prepends_and_expires_front_witness:
  "sampleHeap (hd (keys \<lparr>keys = [2, 1], TypeID = 7\<rparr>)) \<noteq> None
   \<and> (\<exists>h' ks'. RotateIn sampleHeap 5000500000000 \<lparr>keys = [2, 1], TypeID = 7\<rparr> 3 Hour
                  = Inr (h', ks')
         \<and> ks' = \<lparr>keys = [3, 2, 1], TypeID = 7\<rparr>
         \<and> h' 2 = Some (K2\<lparr>ExpiresUnix := 8600\<rparr>) \<and> h' 1 = Some K1 \<and> h' 3 = Some K3)"
  using RotateIn_prepends_and_expires_front
          [of "\<lparr>keys = [2, 1], TypeID = 7\<rparr>" sampleHeap 5000500000000 3 Hour]
  by (auto simp add: sampleHeap_def Unix_def Add_def Hour_def Second_def)

subsection \<open>Keyset.Decrypt\<close>

text \<open>
  C2. \<^verbatim>\<open>Keyset.Decrypt\<close> goes through the keys in stored order with one snapshot of the
  clock. A key that is expired at the snapshot is not tried, a key whose \<^verbatim>\<open>Decrypt\<close>
  fails is passed over, and the first unexpired key whose \<^verbatim>\<open>Decrypt\<close> succeeds gives
  the result, whatever follows it in the slice (the pointers after it are not even
  dereferenced). When every key is expired or fails, and so also when there is no key,
  the call fails with "no valid decryption key".
\<close>

theorem Keyset_Decrypt_first_success_in_order:
  "(keys ks = pre @ a # post
      \<and> (\<forall>b \<in> set pre. \<exists>kb. h b = Some kb
            \<and> (keyExpired kb (Unix now) \<or> (\<exists>e. Decrypt L val (Value kb) = Inl e)))
      \<and> h a = Some k \<and> \<not> keyExpired k (Unix now) \<and> Decrypt L val (Value k) = Inr res
    \<longrightarrow> Keyset_Decrypt L h now ks val = Inr res)
   \<and> ((\<forall>b \<in> set (keys ks). \<exists>kb. h b = Some kb
            \<and> (keyExpired kb (Unix now) \<or> (\<exists>e. Decrypt L val (Value kb) = Inl e)))
    \<longrightarrow> Keyset_Decrypt L h now ks val = Inl NoValidDecryptionKeyError)"
proof (intro conjI impI)
  assume A: "keys ks = pre @ a # post
      \<and> (\<forall>b \<in> set pre. \<exists>kb. h b = Some kb
            \<and> (keyExpired kb (Unix now) \<or> (\<exists>e. Decrypt L val (Value kb) = Inl e)))
      \<and> h a = Some k \<and> \<not> keyExpired k (Unix now) \<and> Decrypt L val (Value k) = Inr res"
  then have "Decrypt_loop L h (Unix now) (pre @ a # post) val
             = Decrypt_loop L h (Unix now) (a # post) val"
    by (intro Decrypt_loop_passed_over) blast
  with A show "Keyset_Decrypt L h now ks val = Inr res"
    by (simp add: Keyset_Decrypt_def)
next
  assume "\<forall>b \<in> set (keys ks). \<exists>kb. h b = Some kb
            \<and> (keyExpired kb (Unix now) \<or> (\<exists>e. Decrypt L val (Value kb) = Inl e))"
  then have "Decrypt_loop L h (Unix now) (keys ks @ []) val = Decrypt_loop L h (Unix now) [] val"
    by (rule Decrypt_loop_passed_over)
  then show "Keyset_Decrypt L h now ks val = Inl NoValidDecryptionKeyError"
    by (simp add: Keyset_Decrypt_def)
qed

theorem Keyset_Decrypt_first_success_in_order_witness:
  "Keyset_Decrypt stubLib sampleHeap 5000000000000 \<lparr>keys = [3, 2, 1, 9], TypeID = 0\<rparr>
      (sampleNonce @ samplePlain @ Value K1) = Inr samplePlain
   \<and> Keyset_Decrypt stubLib sampleHeap 5000000000000 \<lparr>keys = [3, 2], TypeID = 0\<rparr>
      (sampleNonce @ samplePlain @ Value K1) = Inl NoValidDecryptionKeyError"
proof -
  let ?ct = "sampleNonce @ samplePlain @ Value K1"
  have k3: "Decrypt stubLib ?ct (Value K3)
            = Inl (libError ''cipher: message authentication failed'')"
    by (simp add: stub_Decrypt K1_def K3_def sampleNonce_def samplePlain_def)
  have k1: "Decrypt stubLib ?ct (Value K1) = Inr samplePlain"
    by (simp add: stub_Decrypt K1_def sampleNonce_def samplePlain_def)
  have k2: "keyExpired K2 (Unix 5000000000000)"
    by (simp add: keyExpired_def K2_def Unix_def)
  have n1: "\<not> keyExpired K1 (Unix 5000000000000)"
    by (simp add: keyExpired_def K1_def)
  have pre: "\<forall>b \<in> set [3, 2]. \<exists>kb. sampleHeap b = Some kb
      \<and> (keyExpired kb (Unix 5000000000000) \<or> (\<exists>e. Decrypt stubLib ?ct (Value kb) = Inl e))"
    using k2 k3 by (simp add: sampleHeap_def)
  have h1: "sampleHeap 1 = Some K1" by (simp add: sampleHeap_def)
  from Keyset_Decrypt_first_success_in_order
         [of "\<lparr>keys = [3, 2, 1, 9], TypeID = 0\<rparr>" "[3, 2]" 1 "[9]" sampleHeap
             5000000000000 stubLib ?ct K1 samplePlain] pre h1 n1 k1
  have A: "Keyset_Decrypt stubLib sampleHeap 5000000000000
             \<lparr>keys = [3, 2, 1, 9], TypeID = 0\<rparr> ?ct = Inr samplePlain"
    by simp
  from Keyset_Decrypt_first_success_in_order
         [of "\<lparr>keys = [3, 2], TypeID = 0\<rparr>" "[3, 2]" 1 "[9]" sampleHeap
             5000000000000 stubLib ?ct K1 samplePlain] pre
  have B: "Keyset_Decrypt stubLib sampleHeap 5000000000000
             \<lparr>keys = [3, 2], TypeID = 0\<rparr> ?ct = Inl NoValidDecryptionKeyError"
    by simp
  from A B show ?thesis by simp
qed

subsection \<open>Keyset.Encrypt\<close>

text \<open>
  C3. \<^verbatim>\<open>Keyset.Encrypt\<close> fails with "invalid keyset: empty" when there is no key and
  with "no valid key in keyset" when the key in slot 0 is expired; otherwise its result
  is exactly the result of \<^verbatim>\<open>Encrypt\<close> under the value of the key in slot 0. No other
  slot and no other \<^verbatim>\<open>Key\<close> object takes part: replacing the rest of the slice, or the
  rest of the store, does not change the result.
\<close>

theorem Keyset_Encrypt_uses_front_key_only:
  "(keys ks = [] \<longrightarrow> Keyset_Encrypt L rnd h now ks val = Inl EmptyKeysetError)
   \<and> (keys ks = a # as \<and> h a = Some k \<and> keyExpired k (Unix now)
        \<longrightarrow> Keyset_Encrypt L rnd h now ks val = Inl NoValidKeyError)
   \<and> (keys ks = a # as \<and> h a = Some k \<and> \<not> keyExpired k (Unix now)
        \<longrightarrow> Keyset_Encrypt L rnd h now ks val = Encrypt L rnd val (Value k))
   \<and> (keys ks = a # as \<and> h' a = h a
        \<longrightarrow> Keyset_Encrypt L rnd h' now (ks\<lparr>keys := a # bs\<rparr>) val
            = Keyset_Encrypt L rnd h now ks val)"
  by (auto simp add: Keyset_Encrypt_def split: option.splits)

theorem Keyset_Encrypt_uses_front_key_only_witness:
  "Keyset_Encrypt stubLib sampleNonce sampleHeap 2000000000000 \<lparr>keys = [], TypeID = 0\<rparr> samplePlain
     = Inl EmptyKeysetError
   \<and> Keyset_Encrypt stubLib sampleNonce sampleHeap 5000000000000 \<lparr>keys = [2, 1], TypeID = 0\<rparr> samplePlain
     = Inl NoValidKeyError
   \<and> Keyset_Encrypt stubLib sampleNonce sampleHeap 2000000000000 \<lparr>keys = [2, 1], TypeID = 0\<rparr> samplePlain
     = Inr (sampleNonce @ samplePlain @ Value K2)
   \<and> Keyset_Encrypt stubLib sampleNonce (sampleHeap(1 := None)) 2000000000000 \<lparr>keys = [2, 9, 9], TypeID = 0\<rparr> samplePlain
     = Inr (sampleNonce @ samplePlain @ Value K2)"
proof -
  have h2: "sampleHeap 2 = Some K2" by (simp add: sampleHeap_def)
  have e5: "keyExpired K2 (Unix 5000000000000)" by (simp add: keyExpired_def K2_def Unix_def)
  have e2: "\<not> keyExpired K2 (Unix 2000000000000)" by (simp add: keyExpired_def K2_def Unix_def)
  have enc: "Encrypt stubLib sampleNonce samplePlain (Value K2) = Inr (sampleNonce @ samplePlain @ Value K2)"
    by (simp add: stub_Encrypt K2_def sampleNonce_def)
  from Keyset_Encrypt_uses_front_key_only [of "\<lparr>keys = [], TypeID = 0\<rparr>" stubLib sampleNonce sampleHeap 2000000000000 samplePlain]
  have A: "Keyset_Encrypt stubLib sampleNonce sampleHeap 2000000000000 \<lparr>keys = [], TypeID = 0\<rparr> samplePlain
     = Inl EmptyKeysetError" by simp
  from Keyset_Encrypt_uses_front_key_only [of "\<lparr>keys = [2, 1], TypeID = 0\<rparr>" stubLib sampleNonce sampleHeap 5000000000000 samplePlain 2 "[1]" K2] h2 e5
  have B: "Keyset_Encrypt stubLib sampleNonce sampleHeap 5000000000000 \<lparr>keys = [2, 1], TypeID = 0\<rparr> samplePlain
     = Inl NoValidKeyError" by simp
  from Keyset_Encrypt_uses_front_key_only [of "\<lparr>keys = [2, 1], TypeID = 0\<rparr>" stubLib sampleNonce sampleHeap 2000000000000 samplePlain 2 "[1]" K2 "sampleHeap(1 := None)" "[9, 9]"] h2 e2 enc
  have C: "Keyset_Encrypt stubLib sampleNonce sampleHeap 2000000000000 \<lparr>keys = [2, 1], TypeID = 0\<rparr> samplePlain
     = Inr (sampleNonce @ samplePlain @ Value K2)"
   and D: "Keyset_Encrypt stubLib sampleNonce (sampleHeap(1 := None)) 2000000000000 \<lparr>keys = [2, 9, 9], TypeID = 0\<rparr> samplePlain
     = Keyset_Encrypt stubLib sampleNonce sampleHeap 2000000000000 \<lparr>keys = [2, 1], TypeID = 0\<rparr> samplePlain"
    by simp_all
  from A B C D show ?thesis by simp
qed

subsection \<open>Purge\<close>

text \<open>
  The loop invariant of \<^verbatim>\<open>Purge\<close>: the write position never overtakes the read
  position, so the part of the slice still to be read is as it was, and the part
  written so far holds the survivors in order.
\<close>

lemma Purge_loop_filter:
  assumes "end \<le> i" and "i \<le> length arr" and "\<forall>p \<in> set (drop i arr). h p \<noteq> None"
  shows "\<exists>arr' end'. Purge_loop h now arr end i = Inr (arr', end')
           \<and> take end' arr' = take end arr @ filter (\<lambda>p. \<not> keyExpired (the (h p)) now) (drop i arr)"
  using assms
proof (induction h now arr "end" i rule: Purge_loop.induct)
  case (1 h now arr e i)
  show ?case
  proof (cases "i < length arr")
    case False
    then have "Purge_loop h now arr e i = Inr (arr, e)"
      by (subst Purge_loop.simps) simp
    with False "1.prems" show ?thesis by simp
  next
    case True
    then have d: "drop i arr = arr ! i # drop (Suc i) arr" by (simp add: Cons_nth_drop_Suc)
    with "1.prems" obtain k where k: "h (arr ! i) = Some k" by auto
    from d "1.prems" have rest: "\<forall>p \<in> set (drop (Suc i) arr). h p \<noteq> None" by simp
    show ?thesis
    proof (cases "keyExpired k now")
      case True
      from "1.IH"(1) [OF \<open>i < length arr\<close> k True] "1.prems" \<open>i < length arr\<close> rest
      have "\<exists>arr' end'. Purge_loop h now arr e (i + 1) = Inr (arr', end')
           \<and> take end' arr' = take e arr @ filter (\<lambda>p. \<not> keyExpired (the (h p)) now) (drop (i + 1) arr)"
        by simp
      then show ?thesis
        using k True d \<open>i < length arr\<close> by (simp add: Purge_loop.simps [of h now arr e i])
    next
      case False
      let ?arr = "arr[e := arr ! i]"
      have dr: "drop (Suc i) ?arr = drop (Suc i) arr" using "1.prems" by simp
      have tk: "take (Suc e) ?arr = take e arr @ [arr ! i]"
        using "1.prems" \<open>i < length arr\<close> by (simp add: take_Suc_conv_app_nth)
      from "1.IH"(2) [OF \<open>i < length arr\<close> k False] "1.prems" \<open>i < length arr\<close> rest dr
      have "\<exists>arr' end'. Purge_loop h now ?arr (e + 1) (i + 1) = Inr (arr', end')
           \<and> take end' arr' = take (e + 1) ?arr @ filter (\<lambda>p. \<not> keyExpired (the (h p)) now) (drop (i + 1) ?arr)"
        by simp
      then show ?thesis
        using k False d dr tk \<open>i < length arr\<close> by (simp add: Purge_loop.simps [of h now arr e i])
    qed
  qed
qed

lemma Purge_filter:
  assumes "\<forall>p \<in> set (keys ks). h p \<noteq> None"
  shows "Purge h now ks
           = Inr (ks\<lparr>keys := filter (\<lambda>p. \<not> keyExpired (the (h p)) (Unix now)) (keys ks)\<rparr>)"
proof -
  from Purge_loop_filter [of 0 0 "keys ks" h "Unix now"] assms
  obtain arr' end' where "Purge_loop h (Unix now) (keys ks) 0 0 = Inr (arr', end')"
    and "take end' arr' = filter (\<lambda>p. \<not> keyExpired (the (h p)) (Unix now)) (keys ks)"
    by auto
  then show ?thesis by (simp add: Purge_def)
qed

text \<open>
  C5. On a keyset without nil pointers, \<^verbatim>\<open>Purge\<close> leaves exactly the keys that are
  not expired at the time of the call, in their old order; a keyset without expired keys
  is returned as it is, and purging the result again changes nothing.
\<close>

theorem Purge_removes_exactly_expired:
  assumes "\<forall>p \<in> set (keys ks). h p \<noteq> None"
  shows "Purge h now ks
           = Inr (ks\<lparr>keys := filter (\<lambda>p. \<not> keyExpired (the (h p)) (Unix now)) (keys ks)\<rparr>)
         \<and> ((\<forall>p \<in> set (keys ks). \<not> keyExpired (the (h p)) (Unix now)) \<longrightarrow> Purge h now ks = Inr ks)
         \<and> (\<forall>ks'. Purge h now ks = Inr ks' \<longrightarrow> Purge h now ks' = Inr ks')"
proof -
  let ?live = "\<lambda>p. \<not> keyExpired (the (h p)) (Unix now)"
  have A: "Purge h now ks = Inr (ks\<lparr>keys := filter ?live (keys ks)\<rparr>)"
    using assms by (rule Purge_filter)
  have B: "Purge h now ks = Inr ks" if "\<forall>p \<in> set (keys ks). ?live p"
    using A that by simp
  have C: "Purge h now ks' = Inr ks'" if "Purge h now ks = Inr ks'" for ks'
  proof -
    from A that have ks': "ks' = ks\<lparr>keys := filter ?live (keys ks)\<rparr>" by simp
    then have "\<forall>p \<in> set (keys ks'). h p \<noteq> None" using assms by simp
    from Purge_filter [OF this, of now] ks' show ?thesis by simp
  qed
  from A B C show ?thesis by blast
qed

theorem Purge_removes_exactly_expired_witness:
  "Purge sampleHeap 5000000000000 \<lparr>keys = [2, 3, 4], TypeID = 5\<rparr>
     = Inr \<lparr>keys = [3], TypeID = 5\<rparr>
   \<and> Purge sampleHeap 5000000000000 \<lparr>keys = [3], TypeID = 5\<rparr>
     = Inr \<lparr>keys = [3], TypeID = 5\<rparr>"
proof -
  have al: "\<forall>p \<in> set (keys \<lparr>keys = [2, 3, 4], TypeID = 5\<rparr>). sampleHeap p \<noteq> None"
    by (simp add: sampleHeap_def)
  have ex: "keyExpired (the (sampleHeap 2)) (Unix 5000000000000)"
       "\<not> keyExpired (the (sampleHeap 3)) (Unix 5000000000000)"
       "keyExpired (the (sampleHeap 4)) (Unix 5000000000000)"
    by (simp_all add: sampleHeap_def keyExpired_def K2_def K3_def K4_def Unix_def)
  from Purge_removes_exactly_expired [OF al, of 5000000000000] ex
  have A: "Purge sampleHeap 5000000000000 \<lparr>keys = [2, 3, 4], TypeID = 5\<rparr>
             = Inr \<lparr>keys = [3], TypeID = 5\<rparr>"
   and B: "\<forall>ks'. Purge sampleHeap 5000000000000 \<lparr>keys = [2, 3, 4], TypeID = 5\<rparr> = Inr ks'
             \<longrightarrow> Purge sampleHeap 5000000000000 ks' = Inr ks'"
    by simp_all
  from A B show ?thesis by blast
qed

subsection \<open>Encrypt and Decrypt against the library\<close>

lemma Encrypt_not_errorString: "Encrypt L rnd val key \<noteq> Inl (errorString s)"
  by (simp add: Encrypt_def split: sum.splits)

text \<open>
  \<^verbatim>\<open>Decrypt\<close> splits the nonce off where \<^verbatim>\<open>Encrypt\<close> put it, so it undoes
  \<^verbatim>\<open>Encrypt\<close> whenever the library accepts the key, the random source delivers the
  nonce and the library's \<open>Open\<close> undoes its \<open>Seal\<close>.
\<close>

lemma Decrypt_Encrypt_roundtrip:
  assumes "aes_NewCipher L key = Inr c" and "cipher_NewGCM L c = Inr gcm"
    and "NonceSize L gcm \<le> length rnd"
    and "\<forall>nonce. length nonce = NonceSize L gcm
           \<longrightarrow> Open L gcm nonce (Seal L gcm nonce P []) [] = Inr P"
  shows "\<exists>ct. Encrypt L rnd P key = Inr ct \<and> Decrypt L ct key = Inr P"
proof -
  let ?n = "NonceSize L gcm"
  let ?nonce = "take ?n rnd"
  have len: "length ?nonce = ?n" using assms(3) by simp
  have enc: "Encrypt L rnd P key = Inr (?nonce @ Seal L gcm ?nonce P [])"
    using assms(1-3) by (simp add: Encrypt_def ReadFull_def)
  have "Open L gcm ?nonce (Seal L gcm ?nonce P []) [] = Inr P"
    using assms(4) len by blast
  then have "Decrypt L (?nonce @ Seal L gcm ?nonce P []) key = Inr P"
    using assms(1,2) len by (simp add: Decrypt_def Let_def)
  with enc show ?thesis by blast
qed

subsection \<open>Round trip through a keyset\<close>

text \<open>
  C6. A keyset holding exactly one key, unexpired when encrypting and when decrypting:
  \<^verbatim>\<open>Keyset.Encrypt\<close> succeeds and \<^verbatim>\<open>Keyset.Decrypt\<close> of its output returns the
  plaintext. The contract of the primitive is stated on the library: it accepts the key,
  the random source delivers the nonce, and \<open>Open\<close> undoes \<open>Seal\<close> for every nonce of
  the right size.
\<close>

theorem Keyset_roundtrip_single_key:
  assumes "keys ks = [a]" and "h a = Some k"
    and "\<not> keyExpired k (Unix now_e)" and "\<not> keyExpired k (Unix now_d)"
    and "aes_NewCipher L (Value k) = Inr c" and "cipher_NewGCM L c = Inr gcm"
    and "NonceSize L gcm \<le> length rnd"
    and "\<forall>nonce. length nonce = NonceSize L gcm
           \<longrightarrow> Open L gcm nonce (Seal L gcm nonce P []) [] = Inr P"
  shows "\<exists>ct. Keyset_Encrypt L rnd h now_e ks P = Inr ct
              \<and> Keyset_Decrypt L h now_d ks ct = Inr P"
proof -
  from Decrypt_Encrypt_roundtrip [OF assms(5-8)]
  obtain ct where "Encrypt L rnd P (Value k) = Inr ct" and "Decrypt L ct (Value k) = Inr P"
    by blast
  with assms(1-4) show ?thesis
    by (simp add: Keyset_Encrypt_def Keyset_Decrypt_def)
qed

theorem Keyset_roundtrip_single_key_witness:
  "\<exists>ct. Keyset_Encrypt stubLib sampleNonce sampleHeap 2000000000000
            (NewKeysetWithKey 2) samplePlain = Inr ct
        \<and> Keyset_Decrypt stubLib sampleHeap 2400000000000 (NewKeysetWithKey 2) ct
            = Inr samplePlain"
proof -
  have "keys (NewKeysetWithKey 2) = [2]" by (simp add: NewKeysetWithKey_def)
  moreover have "sampleHeap 2 = Some K2" by (simp add: sampleHeap_def)
  moreover have "\<not> keyExpired K2 (Unix 2000000000000)" "\<not> keyExpired K2 (Unix 2400000000000)"
    by (simp_all add: keyExpired_def K2_def Unix_def)
  moreover have "aes_NewCipher stubLib (Value K2) = Inr (Value K2)"
    "cipher_NewGCM stubLib (Value K2) = Inr (Value K2)"
    "NonceSize stubLib (Value K2) \<le> length sampleNonce"
    by (simp_all add: stubLib_def K2_def sampleNonce_def)
  moreover have "\<forall>nonce. length nonce = NonceSize stubLib (Value K2)
      \<longrightarrow> Open stubLib (Value K2) nonce (Seal stubLib (Value K2) nonce samplePlain []) []
          = Inr samplePlain"
    by (simp add: stubLib_def)
  ultimately show ?thesis
    by (rule Keyset_roundtrip_single_key)
qed

subsection \<open>Decrypt on an empty keyset\<close>

text \<open>
  C7, as stated, fails: \<^verbatim>\<open>Keyset.Decrypt\<close> on a keyset without keys does not report
  "invalid keyset: empty"; its loop body never runs and it reports "no valid decryption
  key".
\<close>

theorem Keyset_Decrypt_empty_keyset_counterexample:
  "Keyset_Decrypt stubLib sampleHeap 5000000000000 NewKeyset (sampleNonce @ samplePlain @ Value K1)
     \<noteq> Inl EmptyKeysetError
   \<and> Keyset_Decrypt stubLib sampleHeap 5000000000000 NewKeyset (sampleNonce @ samplePlain @ Value K1)
     = Inl NoValidDecryptionKeyError"
  by (simp add: Keyset_Decrypt_def NewKeyset_def NoValidDecryptionKeyError_def EmptyKeysetError_def)

text \<open>
  C7, amended: on a keyset with zero keys \<^verbatim>\<open>Keyset.Decrypt\<close> fails with "no valid
  decryption key"; "invalid keyset: empty" is what \<^verbatim>\<open>Keyset.Encrypt\<close> reports there.
\<close>

theorem Keyset_Decrypt_empty_keyset:
  assumes "keys ks = []"
  shows "Keyset_Decrypt L h now ks val = Inl NoValidDecryptionKeyError
         \<and> Keyset_Decrypt L h now ks val \<noteq> Inl EmptyKeysetError
         \<and> Keyset_Encrypt L rnd h now ks val = Inl EmptyKeysetError"
  using assms
  by (simp add: Keyset_Decrypt_def Keyset_Encrypt_def NoValidDecryptionKeyError_def
      EmptyKeysetError_def)

theorem Keyset_Decrypt_empty_keyset_witness:
  "keys NewKeyset = []
   \<and> Keyset_Decrypt stubLib sampleHeap 5000000000000 NewKeyset samplePlain
       = Inl NoValidDecryptionKeyError
   \<and> Keyset_Encrypt stubLib sampleNonce sampleHeap 5000000000000 NewKeyset samplePlain
       = Inl EmptyKeysetError"
proof -
  have e: "keys NewKeyset = []" by (simp add: NewKeyset_def)
  from Keyset_Decrypt_empty_keyset [OF e, of stubLib sampleHeap 5000000000000 samplePlain sampleNonce] e
  show ?thesis by simp
qed

subsection \<open>The expiry test\<close>

text \<open>
  C4, as stated, fails: the code's test is \<open>ExpiresUnix > 0\<close>, not \<open>ExpiresUnix \<noteq> 0\<close>.
  A key whose \<open>ExpiresUnix\<close> is negative, so nonzero and before now, is expired in the
  words of the specification, yet \<^verbatim>\<open>Keyset.Encrypt\<close> encrypts with it,
  \<^verbatim>\<open>Keyset.Decrypt\<close> decrypts with it and \<^verbatim>\<open>Purge\<close> keeps it.
\<close>

theorem expiry_test_counterexample:
  "spec_isExpired K5 (Unix 5000000000000)
   \<and> Keyset_Encrypt stubLib sampleNonce sampleHeap 5000000000000 \<lparr>keys = [5], TypeID = 0\<rparr>
        samplePlain = Inr (sampleNonce @ samplePlain @ Value K5)
   \<and> Keyset_Decrypt stubLib sampleHeap 5000000000000 \<lparr>keys = [5], TypeID = 0\<rparr>
        (sampleNonce @ samplePlain @ Value K5) = Inr samplePlain
   \<and> Purge sampleHeap 5000000000000 \<lparr>keys = [5], TypeID = 0\<rparr>
        = Inr \<lparr>keys = [5], TypeID = 0\<rparr>"
proof -
  have h5: "sampleHeap 5 = Some K5" by (simp add: sampleHeap_def)
  have n5: "\<not> keyExpired K5 (Unix 5000000000000)" by (simp add: keyExpired_def K5_def)
  have A: "spec_isExpired K5 (Unix 5000000000000)"
    by (simp add: spec_isExpired_def K5_def Unix_def)
  have B: "Keyset_Encrypt stubLib sampleNonce sampleHeap 5000000000000
             \<lparr>keys = [5], TypeID = 0\<rparr> samplePlain = Inr (sampleNonce @ samplePlain @ Value K5)"
    using h5 n5 by (simp add: Keyset_Encrypt_def stub_Encrypt K5_def sampleNonce_def)
  have "Decrypt stubLib (sampleNonce @ samplePlain @ Value K5) (Value K5) = Inr samplePlain"
    by (simp add: stub_Decrypt K5_def sampleNonce_def samplePlain_def)
  then have C: "Keyset_Decrypt stubLib sampleHeap 5000000000000 \<lparr>keys = [5], TypeID = 0\<rparr>
        (sampleNonce @ samplePlain @ Value K5) = Inr samplePlain"
    using h5 n5 by (simp add: Keyset_Decrypt_def)
  have D: "Purge sampleHeap 5000000000000 \<lparr>keys = [5], TypeID = 0\<rparr>
        = Inr \<lparr>keys = [5], TypeID = 0\<rparr>"
    using Purge_filter [of "\<lparr>keys = [5], TypeID = 0\<rparr>" sampleHeap 5000000000000] h5 n5
    by simp
  from A B C D show ?thesis by simp
qed

text \<open>
  C4, amended: the expiry test of \<^verbatim>\<open>Keyset.Encrypt\<close>, \<^verbatim>\<open>Keyset.Decrypt\<close> and
  \<^verbatim>\<open>Purge\<close> holds if and only if \<open>0 < ExpiresUnix\<close> and \<open>ExpiresUnix < now\<close> (in Unix
  seconds): encryption refuses the front key exactly then, decryption passes a key over
  exactly then, and purge drops a key exactly then. A key with \<open>ExpiresUnix \<le> 0\<close>, so
  also one with \<open>ExpiresUnix = 0\<close>, is never expired, and on keys with
  \<open>ExpiresUnix \<ge> 0\<close> the test agrees with the specification's predicate.
\<close>

theorem expiry_test_is_positive_and_before_now:
  assumes "h a = Some k"
  shows "(Keyset_Encrypt L rnd h now (ks\<lparr>keys := a # as\<rparr>) val = Inl NoValidKeyError
            \<longleftrightarrow> 0 < ExpiresUnix k \<and> ExpiresUnix k < Unix now)
         \<and> Keyset_Decrypt L h now (ks\<lparr>keys := [a]\<rparr>) val
             = (if 0 < ExpiresUnix k \<and> ExpiresUnix k < Unix now
                then Inl NoValidDecryptionKeyError
                else (case Decrypt L val (Value k) of
                        Inr res \<Rightarrow> Inr res
                      | Inl err \<Rightarrow> Inl NoValidDecryptionKeyError))
         \<and> Purge h now (ks\<lparr>keys := [a]\<rparr>)
             = Inr (ks\<lparr>keys := if 0 < ExpiresUnix k \<and> ExpiresUnix k < Unix now then [] else [a]\<rparr>)
         \<and> (ExpiresUnix k \<le> 0 \<longrightarrow> \<not> keyExpired k (Unix now))
         \<and> (0 \<le> ExpiresUnix k \<longrightarrow> keyExpired k (Unix now) = spec_isExpired k (Unix now))"
proof -
  have A: "Keyset_Encrypt L rnd h now (ks\<lparr>keys := a # as\<rparr>) val = Inl NoValidKeyError
            \<longleftrightarrow> 0 < ExpiresUnix k \<and> ExpiresUnix k < Unix now"
    using assms Encrypt_not_errorString [of L rnd val "Value k" "''no valid key in keyset''"]
    by (simp add: Keyset_Encrypt_def keyExpired_def NoValidKeyError_def)
  have B: "Keyset_Decrypt L h now (ks\<lparr>keys := [a]\<rparr>) val
             = (if 0 < ExpiresUnix k \<and> ExpiresUnix k < Unix now
                then Inl NoValidDecryptionKeyError
                else (case Decrypt L val (Value k) of
                        Inr res \<Rightarrow> Inr res
                      | Inl err \<Rightarrow> Inl NoValidDecryptionKeyError))"
    using assms by (simp add: Keyset_Decrypt_def keyExpired_def split: sum.splits)
  have C: "Purge h now (ks\<lparr>keys := [a]\<rparr>)
             = Inr (ks\<lparr>keys := if 0 < ExpiresUnix k \<and> ExpiresUnix k < Unix now then [] else [a]\<rparr>)"
    using Purge_filter [of "ks\<lparr>keys := [a]\<rparr>" h now] assms
    by (simp add: keyExpired_def)
  have D: "ExpiresUnix k \<le> 0 \<longrightarrow> \<not> keyExpired k (Unix now)"
    by (simp add: keyExpired_def)
  have E: "0 \<le> ExpiresUnix k \<longrightarrow> keyExpired k (Unix now) = spec_isExpired k (Unix now)"
    by (auto simp add: keyExpired_def spec_isExpired_def)
  from A B C D E show ?thesis by blast
qed

theorem expiry_test_is_positive_and_before_now_witness:
  "Keyset_Encrypt stubLib sampleNonce sampleHeap 5000000000000 \<lparr>keys = [2, 1], TypeID = 3\<rparr>
      samplePlain = Inl NoValidKeyError
   \<and> Keyset_Decrypt stubLib sampleHeap 5000000000000 \<lparr>keys = [2], TypeID = 3\<rparr>
      (sampleNonce @ samplePlain @ Value K2) = Inl NoValidDecryptionKeyError
   \<and> Purge sampleHeap 5000000000000 \<lparr>keys = [2], TypeID = 3\<rparr> = Inr \<lparr>keys = [], TypeID = 3\<rparr>
   \<and> keyExpired K2 (Unix 5000000000000) = spec_isExpired K2 (Unix 5000000000000)"
proof -
  have h2: "sampleHeap 2 = Some K2" by (simp add: sampleHeap_def)
  have e: "0 < ExpiresUnix K2 \<and> ExpiresUnix K2 < Unix 5000000000000"
    by (simp add: K2_def Unix_def)
  from expiry_test_is_positive_and_before_now
         [where h = sampleHeap and a = 2 and k = K2 and L = stubLib and rnd = sampleNonce
            and now = 5000000000000 and ks = "\<lparr>keys = [2, 1], TypeID = 3\<rparr>"
            and as = "[1]" and val = samplePlain] h2 e
  have A: "Keyset_Encrypt stubLib sampleNonce sampleHeap 5000000000000
             \<lparr>keys = [2, 1], TypeID = 3\<rparr> samplePlain = Inl NoValidKeyError"
    by simp
  from expiry_test_is_positive_and_before_now
         [where h = sampleHeap and a = 2 and k = K2 and L = stubLib and rnd = sampleNonce
            and now = 5000000000000 and ks = "\<lparr>keys = [2], TypeID = 3\<rparr>"
            and as = "[1]" and val = "sampleNonce @ samplePlain @ Value K2"] h2 e
  have B: "Keyset_Decrypt stubLib sampleHeap 5000000000000 \<lparr>keys = [2], TypeID = 3\<rparr>
      (sampleNonce @ samplePlain @ Value K2) = Inl NoValidDecryptionKeyError"
   and C: "Purge sampleHeap 5000000000000 \<lparr>keys = [2], TypeID = 3\<rparr> = Inr \<lparr>keys = [], TypeID = 3\<rparr>"
   and D: "keyExpired K2 (Unix 5000000000000) = spec_isExpired K2 (Unix 5000000000000)"
    by simp_all
  from A B C D show ?thesis by simp
qed

end
